theory Spec2Isabelle
  imports Main
begin

section \<open>The flashcard script (src/script.js) as a state machine\<close>

text \<open>
  The script keeps its data in module-level variables (\<open>flashcards\<close>, \<open>state\<close>),
  in \<open>localStorage\<close> and in the document. The model threads one record, the
  \<open>world\<close>, through every function. A function that can throw returns an
  \<open>outcome\<close>: the world it leaves behind, tagged with whether it returned or threw
  (an exception does not undo the assignments made before it).

  Strings are lists of \<open>char\<close>, one per code unit, for text whose code units are
  below 256. Numbers are \<open>int\<close>. The view that the script only writes (text content,
  CSS classes of elements other than \<open>body\<close>, the animation, the modals) is left
  out; what the script reads back from the document is kept: which elements exist, the
  class list of \<open>body\<close>, and the click listeners of the rows it renders.
\<close>

subsection \<open>String primitives: trim and split\<close>

text \<open>\<open>String.prototype.trim\<close> strips white space and line terminators; below
  code unit 256 these are TAB, LF, VT, FF, CR, SPACE and NBSP.\<close>

definition is_whitespace :: "char \<Rightarrow> bool" where
  "is_whitespace c =
     (c = CHR 0x09 \<or> c = CHR 0x0A \<or> c = CHR 0x0B \<or> c = CHR 0x0C \<or>
      c = CHR 0x0D \<or> c = CHR 0x20 \<or> c = CHR 0xA0)"

definition trim :: "string \<Rightarrow> string" where
  "trim s = rev (dropWhile is_whitespace (rev (dropWhile is_whitespace s)))"

text \<open>\<open>s.split(/[...]/)\<close> for a character class: every separator ends a part, so
  a string with k separators has k + 1 parts (possibly empty).\<close>

fun split_chars :: "(char \<Rightarrow> bool) \<Rightarrow> string \<Rightarrow> string list" where
  "split_chars sep [] = [[]]"
| "split_chars sep (c # cs) =
     (if sep c then [] # split_chars sep cs
      else (case split_chars sep cs of
              [] \<Rightarrow> [[c]]
            | p # ps \<Rightarrow> (c # p) # ps))"

text \<open>\<open>s.split(/[...]+/)\<close>: a maximal run of separators is one separator.\<close>

function split_runs :: "(char \<Rightarrow> bool) \<Rightarrow> string \<Rightarrow> string list" where
  "split_runs sep [] = [[]]"
| "split_runs sep (c # cs) =
     (if sep c then [] # split_runs sep (dropWhile sep cs)
      else (case split_runs sep cs of
              [] \<Rightarrow> [[c]]
            | p # ps \<Rightarrow> (c # p) # ps))"
  by pat_completeness auto
termination
  by (relation "measure (\<lambda>(sep, s). length s)")
     (auto simp: length_dropWhile_le less_Suc_eq_le)

subsection \<open>Data\<close>

record card =
  card_term :: string
  card_definition :: string

text \<open>The built-in set, \<open>const flashcards = [...]\<close>.\<close>

definition sample_flashcards :: "card list" where
  "sample_flashcards =
    [\<lparr>card_term = ''Component'',
      card_definition = ''A reusable piece of UI that encapsulates its own structure, style, and behavior''\<rparr>,
     \<lparr>card_term = ''Design Token'',
      card_definition = ''Named entities that store visual design attributes like colors, typography, and spacing''\<rparr>,
     \<lparr>card_term = ''Typography'',
      card_definition = ''The art and technique of arranging type to make written language legible and appealing''\<rparr>,
     \<lparr>card_term = ''Color System'',
      card_definition = ''A structured set of colors used consistently throughout a design system''\<rparr>,
     \<lparr>card_term = ''Spacing Scale'',
      card_definition = ''A defined set of spacing values used for margins, padding, and gaps''\<rparr>,
     \<lparr>card_term = ''Grid System'',
      card_definition = ''A structure of horizontal and vertical lines used to arrange content''\<rparr>,
     \<lparr>card_term = ''Breakpoint'',
      card_definition = ''Specific viewport widths where the layout changes for responsive design''\<rparr>,
     \<lparr>card_term = ''Accessibility'',
      card_definition = ''The practice of making products usable by people with various abilities''\<rparr>]"

text \<open>\<open>const state = { currentIndex, isFlipped, starredCards, designVariant }\<close>.
  A JavaScript \<open>Set\<close> iterates in insertion order and \<open>saveState\<close> spreads it into
  an array, so \<open>starredCards\<close> is a list without repetitions.\<close>

record session =
  currentIndex :: int
  isFlipped :: bool
  starredCards :: "int list"
  designVariant :: string

definition Set_has :: "int list \<Rightarrow> int \<Rightarrow> bool" where
  "Set_has s x = (x \<in> set s)"

definition Set_add :: "int list \<Rightarrow> int \<Rightarrow> int list" where
  "Set_add s x = (if Set_has s x then s else s @ [x])"

definition Set_delete :: "int list \<Rightarrow> int \<Rightarrow> int list" where
  "Set_delete s x = filter (\<lambda>y. y \<noteq> x) s"

definition new_Set :: "int list \<Rightarrow> int list" where
  "new_Set xs = foldl Set_add [] xs"

text \<open>
  \<open>localStorage\<close>. The script uses three keys. The model keeps under each key what
  the script's reader makes of the stored string:
  \<^item> \<open>designVariant\<close> is read raw;
  \<^item> \<open>flashcardState\<close> goes through \<open>JSON.parse\<close>: \<open>Malformed\<close> stands for a
    string on which the \<open>try\<close> block of \<open>loadSavedState\<close> throws at once
    (a syntax error, or the value \<open>null\<close>), \<open>Snapshot\<close> for an object with its
    fields \<open>currentIndex\<close> (an integer) and \<open>starredCards\<close> (an array of integers)
    as far as they are present: the shape \<open>saveState\<close> writes;
  \<^item> \<open>flashcardContent\<close> holds what \<open>saveContent\<close> writes.
  \<open>None\<close> is a key that is absent or holds the empty string (\<open>getItem\<close> then gives
  a falsy value).
\<close>

datatype flashcardState_json = Malformed | Snapshot "int option" "int list option"

record flashcardContent_json =
  title :: string
  saved_flashcards :: "card list"
  savedAt :: string

record storage =
  designVariant_item :: "string option"
  flashcardState_item :: "flashcardState_json option"
  flashcardContent_item :: "flashcardContent_json option"

text \<open>What the script does to its environment, in order: the log of a world.\<close>

datatype effect =
    Alert string
  | GetItem string
  | SetItem string
  | ConsoleError
  | PreventDefault

datatype js_error = TypeError | SyntaxError | InvalidCharacterError

text \<open>A rendered row carries the click listeners the script attached to its parts. The
  only listener the renderers create is
  \<open>() => { state.currentIndex = index; updateCard(); }\<close>. A panel item also records
  where its star button stands: the row is built by \<open>innerHTML\<close> from the card texts as
  they are, and markup in a text can leave the button inside \<open>.panel-term-content\<close>,
  so that a click on it bubbles into the listener of that element.\<close>

datatype listener = GoTo nat

record panel_term_item =
  panel_term_content :: "listener list"
  panel_term_star :: "listener list"
  star_inside_content :: bool

record table_term_row =
  table_term_content :: "listener list"
  table_term_star :: "listener list"

text \<open>The page and the browser the script runs in. Which of the elements the script
  looks up exist (index.html is not part of the sources): \<open>True\<close> when the lookup
  finds the element. And what the HTML parser makes of a panel row whose card texts hold
  markup: \<open>star_nested c\<close> is \<open>True\<close> when, for the row of card \<open>c\<close>, it places
  \<open>button.panel-term-star\<close> inside \<open>.panel-term-content\<close>.\<close>

record page =
  cardFront :: bool
  cardBack :: bool
  topics_container :: bool
  panel_terms_list :: bool
  journey_topics_container :: bool
  table_terms_list :: bool
  star_nested :: "card \<Rightarrow> bool"

record world =
  flashcards :: "card list"
  state :: session
  localStorage :: storage
  body_classList :: "string list"
  term_items :: "listener list list"
  panel_term_items :: "panel_term_item list"
  journey_term_items :: "listener list list"
  table_term_rows :: "table_term_row list"
  listeners_attached :: bool
  effects :: "effect list"

datatype outcome = Returns world | Throws js_error world

fun world_of :: "outcome \<Rightarrow> world" where
  "world_of (Returns w) = w"
| "world_of (Throws e w) = w"

fun returned :: "outcome \<Rightarrow> bool" where
  "returned (Returns w) = True"
| "returned (Throws e w) = False"

text \<open>Statements in sequence: the first one that throws ends the sequence.\<close>

fun seq :: "(world \<Rightarrow> outcome) list \<Rightarrow> world \<Rightarrow> outcome" where
  "seq [] w = Returns w"
| "seq (f # fs) w =
     (case f w of
        Returns w' \<Rightarrow> seq fs w'
      | Throws e w' \<Rightarrow> Throws e w')"

definition emit :: "effect \<Rightarrow> world \<Rightarrow> world" where
  "emit e w = w\<lparr>effects := effects w @ [e]\<rparr>"

text \<open>The effects an operation added to the log of the world it started from.\<close>

definition emitted :: "world \<Rightarrow> outcome \<Rightarrow> effect list" where
  "emitted w r = drop (length (effects w)) (effects (world_of r))"

subsection \<open>Core functions\<close>

text \<open>\<open>updateCard\<close>. \<open>flashcards[state.currentIndex]\<close> is \<open>undefined\<close> when the
  index is outside the array, and reading \<open>card.term\<close> then throws a TypeError; the
  guard on the two card faces comes before that read. \<open>updateStarButton\<close>,
  \<open>animateCardChange\<close> and \<open>updateActiveTocItem\<close> only write the view. The
  parameter \<open>autoExpand\<close> is passed on and never used.\<close>

definition updateCard :: "page \<Rightarrow> world \<Rightarrow> outcome" where
  "updateCard pg w =
     (let i = currentIndex (state w) in
      if \<not> cardFront pg \<or> \<not> cardBack pg then Returns w
      else if i < 0 \<or> int (length (flashcards w)) \<le> i then Throws TypeError w
      else if isFlipped (state w) then Returns (w\<lparr>state := (state w)\<lparr>isFlipped := False\<rparr>\<rparr>)
      else Returns w)"

definition prevCard :: "page \<Rightarrow> world \<Rightarrow> outcome" where
  "prevCard pg w =
     updateCard pg
       (if currentIndex (state w) > 0
        then w\<lparr>state := (state w)\<lparr>currentIndex := currentIndex (state w) - 1\<rparr>\<rparr>
        else w\<lparr>state := (state w)\<lparr>currentIndex := int (length (flashcards w)) - 1\<rparr>\<rparr>)"

definition nextCard :: "page \<Rightarrow> world \<Rightarrow> outcome" where
  "nextCard pg w =
     updateCard pg
       (if currentIndex (state w) < int (length (flashcards w)) - 1
        then w\<lparr>state := (state w)\<lparr>currentIndex := currentIndex (state w) + 1\<rparr>\<rparr>
        else w\<lparr>state := (state w)\<lparr>currentIndex := 0\<rparr>\<rparr>)"

definition flipCard :: "world \<Rightarrow> world" where
  "flipCard w = w\<lparr>state := (state w)\<lparr>isFlipped := \<not> isFlipped (state w)\<rparr>\<rparr>"

definition saveState :: "world \<Rightarrow> world" where
  "saveState w =
     emit (SetItem ''flashcardState'')
       (w\<lparr>localStorage := (localStorage w)\<lparr>flashcardState_item :=
            Some (Snapshot (Some (currentIndex (state w))) (Some (starredCards (state w))))\<rparr>\<rparr>)"

definition toggleStar :: "world \<Rightarrow> world" where
  "toggleStar w =
     (let index = currentIndex (state w) in
      saveState
        (if Set_has (starredCards (state w)) index
         then w\<lparr>state := (state w)\<lparr>starredCards := Set_delete (starredCards (state w)) index\<rparr>\<rparr>
         else w\<lparr>state := (state w)\<lparr>starredCards := Set_add (starredCards (state w)) index\<rparr>\<rparr>))"

record keyboard_event =
  target_tagName :: string
  key :: string

definition handleKeydown :: "page \<Rightarrow> keyboard_event \<Rightarrow> world \<Rightarrow> outcome" where
  "handleKeydown pg event w =
     (if target_tagName event = ''INPUT'' \<or> target_tagName event = ''TEXTAREA'' then Returns w
      else if key event = ''ArrowLeft'' then prevCard pg w
      else if key event = ''ArrowRight'' then nextCard pg w
      else if key event = '' '' \<or> key event = ''Enter'' then Returns (flipCard (emit PreventDefault w))
      else Returns w)"

subsection \<open>Renderers of the lists\<close>

text \<open>Each renderer returns at once when its container is missing; otherwise it empties
  the container and builds one row per card, by \<open>innerHTML\<close> from a template that holds
  the card texts unescaped. A text without \<open><\<close> cannot open or close an element, so
  the row has the structure of the template. For a text with \<open><\<close> the structure is
  what the parser makes of it. Script that a card text brings along (inline handlers) is
  outside the model.

  The sidebar and journey items carry their listener on the item itself, so its reach
  does not depend on what is inside. In a panel item the listener is on
  \<open>.panel-term-content\<close>, the first element of the template, and the star button
  follows that element; the model asks the parser whether the button has ended up inside
  it. A table row gets no listener at all, on none of its parts.\<close>

definition plain_text :: "string \<Rightarrow> bool" where
  "plain_text s = (CHR ''<'' \<notin> set s)"

definition plain_card :: "card \<Rightarrow> bool" where
  "plain_card c = (plain_text (card_term c) \<and> plain_text (card_definition c))"

definition updateTopicsList :: "page \<Rightarrow> card list \<Rightarrow> world \<Rightarrow> world" where
  "updateTopicsList pg cards w =
     (if \<not> topics_container pg then w
      else w\<lparr>term_items := map (\<lambda>index. [GoTo index]) [0..<length cards]\<rparr>)"

definition updatePanelTermsList :: "page \<Rightarrow> world \<Rightarrow> world" where
  "updatePanelTermsList pg w =
     (if \<not> panel_terms_list pg then w
      else w\<lparr>panel_term_items :=
             map (\<lambda>index.
                    \<lparr>panel_term_content = [GoTo index],
                     panel_term_star = [],
                     star_inside_content =
                       (\<not> plain_card (flashcards w ! index)
                        \<and> star_nested pg (flashcards w ! index))\<rparr>)
               [0..<length (flashcards w)]\<rparr>)"

definition updateJourneyView :: "page \<Rightarrow> world \<Rightarrow> world" where
  "updateJourneyView pg w =
     (if \<not> journey_topics_container pg then w
      else w\<lparr>journey_term_items := map (\<lambda>index. [GoTo index]) [0..<length (flashcards w)]\<rparr>)"

definition initTableView :: "page \<Rightarrow> world \<Rightarrow> world" where
  "initTableView pg w =
     (if \<not> table_terms_list pg then w
      else w\<lparr>table_term_rows :=
             map (\<lambda>index. \<lparr>table_term_content = [], table_term_star = []\<rparr>)
               [0..<length (flashcards w)]\<rparr>)"

subsection \<open>Design variants\<close>

text \<open>\<open>classList.add\<close> throws a SyntaxError on the empty token and an
  InvalidCharacterError on a token with ASCII white space; by then the five markers are
  already removed.\<close>

definition is_ascii_whitespace :: "char \<Rightarrow> bool" where
  "is_ascii_whitespace c =
     (c = CHR 0x09 \<or> c = CHR 0x0A \<or> c = CHR 0x0C \<or> c = CHR 0x0D \<or> c = CHR 0x20)"

definition variant_markers :: "string list" where
  "variant_markers = [''option-a'', ''option-b'', ''option-c'', ''option-d'', ''option-e'']"

definition classList_remove :: "string list \<Rightarrow> string list \<Rightarrow> string list" where
  "classList_remove cl tokens = filter (\<lambda>c. c \<notin> set tokens) cl"

definition classList_add :: "string list \<Rightarrow> string \<Rightarrow> string list" where
  "classList_add cl token = (if token \<in> set cl then cl else cl @ [token])"

definition classList_contains :: "string list \<Rightarrow> string \<Rightarrow> bool" where
  "classList_contains cl token = (token \<in> set cl)"

definition setDesignVariant :: "page \<Rightarrow> string \<Rightarrow> world \<Rightarrow> outcome" where
  "setDesignVariant pg variant w =
     (let w1 = w\<lparr>body_classList := classList_remove (body_classList w) variant_markers\<rparr> in
      if variant = [] then Throws SyntaxError w1
      else if list_ex is_ascii_whitespace variant then Throws InvalidCharacterError w1
      else
        let w2 = emit (SetItem ''designVariant'')
                   (w1\<lparr>body_classList := classList_add (body_classList w1) variant,
                       state := (state w1)\<lparr>designVariant := variant\<rparr>,
                       localStorage := (localStorage w1)\<lparr>designVariant_item := Some variant\<rparr>\<rparr>)
        in Returns
             (if variant = ''option-b'' \<or> variant = ''option-e'' then updatePanelTermsList pg w2
              else if variant = ''option-c'' then updateJourneyView pg w2
              else if variant = ''option-d'' then initTableView pg w2
              else w2))"

text \<open>\<open>localStorage.getItem('designVariant') || 'option-a'\<close>.\<close>

definition saved_variant :: "storage \<Rightarrow> string" where
  "saved_variant ls =
     (case designVariant_item ls of
        None \<Rightarrow> ''option-a''
      | Some v \<Rightarrow> if v = [] then ''option-a'' else v)"

definition loadDesignVariant :: "page \<Rightarrow> world \<Rightarrow> outcome" where
  "loadDesignVariant pg w =
     (let savedVariant = saved_variant (localStorage w)
      in setDesignVariant pg savedVariant (emit (GetItem ''designVariant'') w))"

subsection \<open>Import\<close>

definition is_line_separator :: "char \<Rightarrow> bool" where
  "is_line_separator c = (c = CHR 0x0A \<or> c = CHR '';'')"

definition is_part_separator :: "char \<Rightarrow> bool" where
  "is_part_separator c = (c = CHR 0x09 \<or> c = CHR '','')"

text \<open>The body of \<open>lines.forEach\<close>: the card a line pushes, if any.\<close>

definition parse_line :: "string \<Rightarrow> card option" where
  "parse_line line =
     (let parts = map trim (split_chars is_part_separator line) in
      if length parts \<ge> 2
      then Some \<lparr>card_term = parts ! 0, card_definition = parts ! 1\<rparr>
      else None)"

definition import_lines :: "string \<Rightarrow> string list" where
  "import_lines text = filter (\<lambda>line. trim line \<noteq> []) (split_runs is_line_separator text)"

definition parse_cards :: "string \<Rightarrow> card list" where
  "parse_cards text = List.map_filter parse_line (import_lines text)"

definition saveContent :: "string \<Rightarrow> card list \<Rightarrow> string \<Rightarrow> world \<Rightarrow> world" where
  "saveContent ttl cards now w =
     emit (SetItem ''flashcardContent'')
       (w\<lparr>localStorage := (localStorage w)\<lparr>flashcardContent_item :=
            Some \<lparr>title = ttl, saved_flashcards = cards, savedAt = now\<rparr>\<rparr>\<rparr>)"

text \<open>\<open>importFlashcards\<close>. Its inputs are the values of the two form fields
  (\<open>None\<close> when the field is missing from the page) and the clock reading that
  \<open>saveContent\<close> takes. The two values are read as
  \<open>elements.importTitleInput?.value || 'Untitled Set'\<close> and
  \<open>elements.importTextarea?.value || ''\<close>.\<close>

definition title_value :: "string option \<Rightarrow> string" where
  "title_value importTitleInput =
     (case importTitleInput of
        None \<Rightarrow> ''Untitled Set''
      | Some v \<Rightarrow> if v = [] then ''Untitled Set'' else v)"

definition textarea_value :: "string option \<Rightarrow> string" where
  "textarea_value importTextarea = (case importTextarea of None \<Rightarrow> [] | Some v \<Rightarrow> v)"

definition importFlashcards ::
  "page \<Rightarrow> string option \<Rightarrow> string option \<Rightarrow> string \<Rightarrow> world \<Rightarrow> outcome" where
  "importFlashcards pg importTitleInput importTextarea now w =
     (let ttl = title_value importTitleInput;
          text = textarea_value importTextarea
      in if trim text = [] then Returns (emit (Alert ''Please enter some flashcard content'') w)
         else
           let newCards = parse_cards text in
           if length newCards > 0 then
             seq [updateCard pg,
                  (\<lambda>u. Returns (updateTopicsList pg (flashcards u) u)),
                  (\<lambda>u. Returns
                     (if classList_contains (body_classList u) ''option-b''
                         \<or> classList_contains (body_classList u) ''option-e''
                      then updatePanelTermsList pg u else u)),
                  (\<lambda>u. Returns
                     (if classList_contains (body_classList u) ''option-c''
                      then updateJourneyView pg u else u)),
                  (\<lambda>u. Returns
                     (if classList_contains (body_classList u) ''option-d''
                      then initTableView pg u else u)),
                  (\<lambda>u. Returns (saveContent ttl (flashcards u) now u))]
               (w\<lparr>flashcards := newCards, state := (state w)\<lparr>currentIndex := 0\<rparr>\<rparr>)
           else Returns w)"

subsection \<open>State persistence and start-up\<close>

definition loadSavedState :: "world \<Rightarrow> world" where
  "loadSavedState w =
     (let w1 = emit (GetItem ''flashcardState'') w in
      case flashcardState_item (localStorage w1) of
        None \<Rightarrow> w1
      | Some Malformed \<Rightarrow> emit ConsoleError w1
      | Some (Snapshot ci sc) \<Rightarrow>
          w1\<lparr>state := (state w1)
               \<lparr>currentIndex := (case ci of None \<Rightarrow> 0 | Some n \<Rightarrow> n),
                starredCards := new_Set (case sc of None \<Rightarrow> [] | Some xs \<Rightarrow> xs)\<rparr>\<rparr>)"

text \<open>\<open>attachEventListeners\<close> registers the handlers; until it has run no user
  event reaches the script. \<open>initPanelResize\<close> registers handlers with empty bodies.\<close>

definition attachEventListeners :: "world \<Rightarrow> world" where
  "attachEventListeners w = w\<lparr>listeners_attached := True\<rparr>"

definition init :: "page \<Rightarrow> world \<Rightarrow> outcome" where
  "init pg w =
     seq [loadDesignVariant pg,
          (\<lambda>u. Returns (loadSavedState u)),
          updateCard pg,
          (\<lambda>u. Returns (attachEventListeners u)),
          (\<lambda>u. Returns (updateTopicsList pg (flashcards u) u))] w"

text \<open>The world when the script has been loaded, before \<open>DOMContentLoaded\<close>: the
  module-level constants, the storage the browser kept, nothing rendered, and a
  \<open>body\<close> element whose markup gives it no class.\<close>

definition initial_world :: "storage \<Rightarrow> world" where
  "initial_world ls =
     \<lparr>flashcards = sample_flashcards,
      state = \<lparr>currentIndex = 0, isFlipped = False, starredCards = [],
               designVariant = ''option-a''\<rparr>,
      localStorage = ls,
      body_classList = [],
      term_items = [],
      panel_term_items = [],
      journey_term_items = [],
      table_term_rows = [],
      listeners_attached = False,
      effects = []\<rparr>"

definition page_load :: "page \<Rightarrow> storage \<Rightarrow> outcome" where
  "page_load pg ls = init pg (initial_world ls)"

subsection \<open>User events\<close>

text \<open>A click runs the listeners of its target in the order of registration, then
  those of the ancestors it bubbles through; a listener that throws is reported and the
  remaining ones still run. The only ancestor of a part of a rendered row that can carry
  a click listener of the script is \<open>.panel-term-content\<close>, for a star button that
  the parser has placed inside it.\<close>

fun run_listener :: "page \<Rightarrow> listener \<Rightarrow> world \<Rightarrow> outcome" where
  "run_listener pg (GoTo index) w =
     updateCard pg (w\<lparr>state := (state w)\<lparr>currentIndex := int index\<rparr>\<rparr>)"

fun dispatch :: "page \<Rightarrow> listener list \<Rightarrow> world \<Rightarrow> outcome" where
  "dispatch pg [] w = Returns w"
| "dispatch pg (l # ls) w =
     (case run_listener pg l w of
        Returns w' \<Rightarrow> dispatch pg ls w'
      | Throws e w' \<Rightarrow> Throws e (world_of (dispatch pg ls w')))"

definition star_click_path :: "panel_term_item \<Rightarrow> listener list" where
  "star_click_path it =
     panel_term_star it @ (if star_inside_content it then panel_term_content it else [])"

datatype ui_event =
    ClickPrevBtn
  | ClickNextBtn
  | ClickFlashcard
  | ClickStarBtn
  | Keydown keyboard_event
  | ClickVariantBtn string
  | ClickImportSubmitBtn "string option" "string option" string
  | ClickTermItem nat
  | ClickPanelTermContent nat
  | ClickPanelTermStar nat
  | ClickJourneyTermItem nat
  | ClickTableTermContent nat
  | ClickTableTermStar nat

text \<open>The handler table that \<open>attachEventListeners\<close> and the renderers set up. The
  listener of the star button stops the propagation and calls \<open>toggleStar\<close>. The
  second \<open>keydown\<close> listener (Escape) and the listeners of the tabs and of the modals
  touch the left-out view only. A click on a row that is not rendered cannot happen; the
  model returns the world as it is.\<close>

fun handle :: "page \<Rightarrow> ui_event \<Rightarrow> world \<Rightarrow> outcome" where
  "handle pg ClickPrevBtn w = prevCard pg w"
| "handle pg ClickNextBtn w = nextCard pg w"
| "handle pg ClickFlashcard w = Returns (flipCard w)"
| "handle pg ClickStarBtn w = Returns (toggleStar w)"
| "handle pg (Keydown event) w = handleKeydown pg event w"
| "handle pg (ClickVariantBtn variant) w = setDesignVariant pg variant w"
| "handle pg (ClickImportSubmitBtn ttl text now) w = importFlashcards pg ttl text now w"
| "handle pg (ClickTermItem i) w =
     (if i < length (term_items w) then dispatch pg (term_items w ! i) w else Returns w)"
| "handle pg (ClickPanelTermContent i) w =
     (if i < length (panel_term_items w)
      then dispatch pg (panel_term_content (panel_term_items w ! i)) w else Returns w)"
| "handle pg (ClickPanelTermStar i) w =
     (if i < length (panel_term_items w)
      then dispatch pg (star_click_path (panel_term_items w ! i)) w else Returns w)"
| "handle pg (ClickJourneyTermItem i) w =
     (if i < length (journey_term_items w) then dispatch pg (journey_term_items w ! i) w
      else Returns w)"
| "handle pg (ClickTableTermContent i) w =
     (if i < length (table_term_rows w)
      then dispatch pg (table_term_content (table_term_rows w ! i)) w else Returns w)"
| "handle pg (ClickTableTermStar i) w =
     (if i < length (table_term_rows w)
      then dispatch pg (table_term_star (table_term_rows w ! i)) w else Returns w)"

text \<open>The listeners of buttons, card and keyboard exist once \<open>attachEventListeners\<close>
  has run. The listeners of a rendered row exist as soon as the row is rendered: the
  renderers that \<open>loadDesignVariant\<close> calls run before the rest of \<open>init\<close>, and
  their rows stay live when \<open>init\<close> throws later.\<close>

fun row_click :: "ui_event \<Rightarrow> bool" where
  "row_click (ClickTermItem i) = True"
| "row_click (ClickPanelTermContent i) = True"
| "row_click (ClickPanelTermStar i) = True"
| "row_click (ClickJourneyTermItem i) = True"
| "row_click (ClickTableTermContent i) = True"
| "row_click (ClickTableTermStar i) = True"
| "row_click ev = False"

definition user_event :: "page \<Rightarrow> ui_event \<Rightarrow> world \<Rightarrow> outcome" where
  "user_event pg ev w =
     (if row_click ev \<or> listeners_attached w then handle pg ev w else Returns w)"

text \<open>A sequence of user events; a handler that throws ends its own event only.\<close>

fun user_events :: "page \<Rightarrow> ui_event list \<Rightarrow> world \<Rightarrow> world" where
  "user_events pg [] w = w"
| "user_events pg (ev # evs) w = user_events pg evs (world_of (user_event pg ev w))"

text \<open>The same function called n times in a row, stopping when a call throws.\<close>

fun repeatedly :: "nat \<Rightarrow> (world \<Rightarrow> outcome) \<Rightarrow> world \<Rightarrow> outcome" where
  "repeatedly 0 f w = Returns w"
| "repeatedly (Suc n) f w =
     (case f w of
        Returns w' \<Rightarrow> repeatedly n f w'
      | Throws e w' \<Rightarrow> Throws e w')"

subsection \<open>Concrete pages and storages\<close>

text \<open>A page that has every element the script looks up, the storage of a first visit,
  and the world after the first start-up on them. Of the card texts with markup the page
  knows one case: a term \<open><div>\<close> with a plain definition. The \<open>div\<close> stays open in
  \<open>span.panel-term-text\<close>, the \<open></span>\<close> of the template is ignored, its
  \<open></div>\<close> closes the \<open>div\<close> of the card, and the star button is inserted under the
  \<open>span\<close>, inside \<open>.panel-term-content\<close>. The sessions below use no other markup.\<close>

definition full_page :: page where
  "full_page =
     \<lparr>cardFront = True, cardBack = True, topics_container = True, panel_terms_list = True,
      journey_topics_container = True, table_terms_list = True,
      star_nested = (\<lambda>c. card_term c = ''<div>'' \<and> plain_text (card_definition c))\<rparr>"

definition empty_storage :: storage where
  "empty_storage =
     \<lparr>designVariant_item = None, flashcardState_item = None, flashcardContent_item = None\<rparr>"

definition start_world :: world where
  "start_world = world_of (page_load full_page empty_storage)"

definition saved_storage :: storage where
  "saved_storage =
     \<lparr>designVariant_item = Some ''option-c'',
      flashcardState_item = Some (Snapshot (Some 3) (Some [1, 3])),
      flashcardContent_item = None\<rparr>"

text \<open>Sessions of user events after the first start-up: an import of nine cards, eight
  steps forward and a star; a switch to the panel and to the table layout; in the panel
  layout, an import with a term \<open><div>\<close> and an import of plain cards, each followed
  by a step forward; an import of one card under a title.\<close>

definition stale_session :: world where
  "stale_session =
     user_events full_page
       (ClickImportSubmitBtn None (Some ''a,1;b,2;c,3;d,4;e,5;f,6;g,7;h,8;i,9'')
            ''2026-01-01T00:00:00.000Z''
          # replicate 8 ClickNextBtn @ [ClickStarBtn])
       start_world"

definition panel_session :: world where
  "panel_session = user_events full_page [ClickVariantBtn ''option-b'', ClickNextBtn] start_world"

definition table_session :: world where
  "table_session = user_events full_page [ClickVariantBtn ''option-d'', ClickNextBtn] start_world"

definition markup_session :: world where
  "markup_session =
     user_events full_page
       [ClickVariantBtn ''option-b'',
        ClickImportSubmitBtn None (Some ''<div>,x;b,y'') ''2026-01-01T00:00:00.000Z'',
        ClickNextBtn]
       start_world"

definition plain_import_session :: world where
  "plain_import_session =
     user_events full_page
       [ClickVariantBtn ''option-b'',
        ClickImportSubmitBtn None (Some ''a,1;b,2;c,3'') ''2026-01-01T00:00:00.000Z'',
        ClickNextBtn]
       start_world"

text \<open>A session that leaves stale rows behind: the panel list is rendered for the eight
  built-in cards, the layout goes back to the default, an import replaces the store by one
  card (the panel list is not rendered again, the class of \<open>body\<close> being
  \<open>option-a\<close>), and the card is flipped. And a page without the front face of the
  card.\<close>

definition stale_rows_session :: world where
  "stale_rows_session =
     user_events full_page
       [ClickVariantBtn ''option-b'', ClickVariantBtn ''option-a'',
        ClickImportSubmitBtn None (Some ''a,1'') ''2026-01-01T00:00:00.000Z'',
        ClickFlashcard]
       start_world"

definition page_without_front :: page where
  "page_without_front = full_page\<lparr>cardFront := False\<rparr>"

definition imported_session :: world where
  "imported_session =
     user_events full_page
       [ClickImportSubmitBtn (Some ''Mine'') (Some ''a,1'') ''2026-01-01T00:00:00.000Z'']
       start_world"

subsection \<open>Predicates used in the properties\<close>

text \<open>The condition under which \<open>importFlashcards\<close> reaches its replacing branch: the
  text is not blank and at least one line gave a card.\<close>

definition import_accepts :: "string option \<Rightarrow> bool" where
  "import_accepts importTextarea =
     (trim (textarea_value importTextarea) \<noteq> []
      \<and> length (parse_cards (textarea_value importTextarea)) > 0)"

text \<open>The invariant of the session: \<open>0 \<le> currentIndex < |CardStore|\<close>.\<close>

definition index_in_range :: "world \<Rightarrow> bool" where
  "index_in_range w =
     (0 \<le> currentIndex (state w) \<and> currentIndex (state w) < int (length (flashcards w)))"

text \<open>No click on the star button of a rendered panel item or table row reaches a
  listener: the button has none and does not stand inside \<open>.panel-term-content\<close>.\<close>

definition stars_inert :: "world \<Rightarrow> bool" where
  "stars_inert w =
     (list_all (\<lambda>it. panel_term_star it = [] \<and> \<not> star_inside_content it) (panel_term_items w)
      \<and> list_all (\<lambda>r. table_term_star r = []) (table_term_rows w))"

text \<open>A user event that brings no markup into the card store: every event but an import
  one of whose cards holds a \<open><\<close>.\<close>

fun plain_event :: "ui_event \<Rightarrow> bool" where
  "plain_event (ClickImportSubmitBtn ttl ta now) =
     list_all plain_card (parse_cards (textarea_value ta))"
| "plain_event ev = True"

definition plain_session :: "world \<Rightarrow> bool" where
  "plain_session w = (list_all plain_card (flashcards w) \<and> stars_inert w)"

section \<open>Properties\<close>

subsection \<open>Field-wise facts about the functions\<close>

lemma length_sample_flashcards: "length sample_flashcards = 8"
  by (simp add: sample_flashcards_def)

lemma start_world_eq:
  "start_world =
     \<lparr>flashcards = sample_flashcards,
      state = \<lparr>currentIndex = 0, isFlipped = False, starredCards = [],
               designVariant = ''option-a''\<rparr>,
      localStorage = \<lparr>designVariant_item = Some ''option-a'', flashcardState_item = None,
                       flashcardContent_item = None\<rparr>,
      body_classList = [''option-a''],
      term_items = map (\<lambda>index. [GoTo index]) [0..<8],
      panel_term_items = [],
      journey_term_items = [],
      table_term_rows = [],
      listeners_attached = True,
      effects = [GetItem ''designVariant'', SetItem ''designVariant'', GetItem ''flashcardState'']\<rparr>"
  by (simp add: start_world_def page_load_def init_def initial_world_def loadDesignVariant_def
      saved_variant_def setDesignVariant_def emit_def classList_remove_def classList_add_def
      variant_markers_def is_ascii_whitespace_def loadSavedState_def updateCard_def full_page_def
      empty_storage_def attachEventListeners_def updateTopicsList_def sample_flashcards_def
      Let_def upt_rec)

lemma renderers_keep [simp]:
  "body_classList (updatePanelTermsList pg w) = body_classList w"
  "state (updatePanelTermsList pg w) = state w"
  "localStorage (updatePanelTermsList pg w) = localStorage w"
  "effects (updatePanelTermsList pg w) = effects w"
  "flashcards (updatePanelTermsList pg w) = flashcards w"
  "body_classList (updateJourneyView pg w) = body_classList w"
  "state (updateJourneyView pg w) = state w"
  "localStorage (updateJourneyView pg w) = localStorage w"
  "effects (updateJourneyView pg w) = effects w"
  "flashcards (updateJourneyView pg w) = flashcards w"
  "body_classList (initTableView pg w) = body_classList w"
  "state (initTableView pg w) = state w"
  "localStorage (initTableView pg w) = localStorage w"
  "effects (initTableView pg w) = effects w"
  "flashcards (initTableView pg w) = flashcards w"
  "body_classList (updateTopicsList pg cs w) = body_classList w"
  "state (updateTopicsList pg cs w) = state w"
  "localStorage (updateTopicsList pg cs w) = localStorage w"
  "effects (updateTopicsList pg cs w) = effects w"
  "flashcards (updateTopicsList pg cs w) = flashcards w"
  by (simp_all add: updatePanelTermsList_def updateJourneyView_def initTableView_def
      updateTopicsList_def)

lemma rows_updateCard [simp]:
  "panel_term_items (world_of (updateCard pg w)) = panel_term_items w"
  "table_term_rows (world_of (updateCard pg w)) = table_term_rows w"
  "effects (world_of (updateCard pg w)) = effects w"
  "flashcards (world_of (updateCard pg w)) = flashcards w"
  "localStorage (world_of (updateCard pg w)) = localStorage w"
  "body_classList (world_of (updateCard pg w)) = body_classList w"
  by (simp_all add: updateCard_def Let_def)

lemma state_updateCard [simp]:
  "currentIndex (state (world_of (updateCard pg w))) = currentIndex (state w)"
  "starredCards (state (world_of (updateCard pg w))) = starredCards (state w)"
  "designVariant (state (world_of (updateCard pg w))) = designVariant (state w)"
  by (simp_all add: updateCard_def Let_def)

lemma updateCard_in_range:
  "0 \<le> currentIndex (state w) \<Longrightarrow> currentIndex (state w) < int (length (flashcards w)) \<Longrightarrow>
   \<exists>w'. updateCard pg w = Returns w' \<and> flashcards w' = flashcards w
       \<and> currentIndex (state w') = currentIndex (state w)"
  by (simp add: updateCard_def Let_def)

lemma updateCard_first_card:
  assumes "flashcards u \<noteq> []" "currentIndex (state u) = 0"
  shows "\<exists>v. updateCard pg u = Returns v \<and> effects v = effects u
           \<and> localStorage v = localStorage u \<and> flashcards v = flashcards u
           \<and> currentIndex (state v) = 0"
  using assms by (simp add: updateCard_def Let_def)

lemma effects_dispatch [simp]: "effects (world_of (dispatch pg ls w)) = effects w"
proof (induction ls arbitrary: w)
  case Nil
  then show ?case by simp
next
  case (Cons l ls)
  obtain index where l: "l = GoTo index" by (cases l)
  let ?u = "w\<lparr>state := (state w)\<lparr>currentIndex := int index\<rparr>\<rparr>"
  have e: "effects (world_of (updateCard pg ?u)) = effects w" by simp
  show ?case
  proof (cases "updateCard pg ?u")
    case (Returns v)
    with e Cons.IH[of v] show ?thesis by (simp add: l)
  next
    case (Throws e' v)
    with e Cons.IH[of v] show ?thesis by (simp add: l)
  qed
qed

lemma effects_prev_next [simp]:
  "effects (world_of (prevCard pg w)) = effects w"
  "effects (world_of (nextCard pg w)) = effects w"
  "localStorage (world_of (prevCard pg w)) = localStorage w"
  "localStorage (world_of (nextCard pg w)) = localStorage w"
  by (simp_all add: prevCard_def nextCard_def)

lemma effects_setDesignVariant:
  "effects (world_of (setDesignVariant pg v w)) = effects w
   \<or> effects (world_of (setDesignVariant pg v w)) = effects w @ [SetItem ''designVariant'']"
  by (simp add: setDesignVariant_def Let_def emit_def)

lemma effects_handleKeydown:
  "effects (world_of (handleKeydown pg ev w)) = effects w
   \<or> effects (world_of (handleKeydown pg ev w)) = effects w @ [PreventDefault]"
  by (simp add: handleKeydown_def flipCard_def emit_def)

subsection \<open>Start-up on a snapshot the script wrote itself\<close>

text \<open>
  Claim C1. In every reachable state \<open>0 \<le> currentIndex < |CardStore|\<close>, also in the
  state that start-up hydrates from the persisted session snapshot, and no operation
  crashes.

  The script breaks this. In \<open>stale_session\<close> the user imported nine cards, went to
  the last one and starred it: the index 8 is in range and \<open>saveState\<close> stored it.
  The imported cards are not restored on the next page load, \<open>loadSavedState\<close>
  assigns the stored index without looking at the length of the built-in set of eight,
  and \<open>updateCard\<close> throws a TypeError on \<open>card.term\<close>; \<open>init\<close> ends there, before
  \<open>attachEventListeners\<close>.
\<close>

theorem stale_snapshot_breaks_startup:
  "index_in_range stale_session
   \<and> currentIndex (state stale_session) = 8 \<and> length (flashcards stale_session) = 9
   \<and> flashcardState_item (localStorage stale_session) = Some (Snapshot (Some 8) (Some [8]))
   \<and> \<not> index_in_range (world_of (page_load full_page (localStorage stale_session)))
   \<and> (case page_load full_page (localStorage stale_session) of
         Returns w \<Rightarrow> False
       | Throws e w \<Rightarrow> e = TypeError \<and> currentIndex (state w) = 8
                        \<and> length (flashcards w) = 8 \<and> \<not> listeners_attached w)"
  by code_simp

text \<open>When the stored variant is the panel layout, \<open>loadDesignVariant\<close> has rendered
  the panel rows before \<open>updateCard\<close> throws: the buttons are dead, the rows are
  live.\<close>

lemma rows_live_after_failed_startup:
  "(case page_load full_page ((localStorage stale_session)\<lparr>designVariant_item := Some ''option-b''\<rparr>) of
      Returns w \<Rightarrow> False
    | Throws e w \<Rightarrow>
        e = TypeError \<and> \<not> listeners_attached w \<and> length (panel_term_items w) = 8
        \<and> user_event full_page ClickNextBtn w = Returns w
        \<and> returned (user_event full_page (ClickPanelTermContent 2) w)
        \<and> currentIndex (state (world_of (user_event full_page (ClickPanelTermContent 2) w))) = 2)"
  by code_simp

subsection \<open>Which operations write the session snapshot\<close>

text \<open>
  Claim C2, as stated: after every call of goTo, next, prev or toggleStar the session
  snapshot is written to persistent storage. On the first start-up world a step forward,
  a step back and a click on the third sidebar entry each change \<open>currentIndex\<close> and
  write nothing: the key \<open>flashcardState\<close> stays absent.
\<close>

theorem navigation_writes_nothing:
  "emitted start_world (handle full_page ClickNextBtn start_world) = []
   \<and> emitted start_world (handle full_page ClickPrevBtn start_world) = []
   \<and> emitted start_world (handle full_page (ClickTermItem 2) start_world) = []
   \<and> currentIndex (state (world_of (handle full_page ClickNextBtn start_world))) = 1
   \<and> flashcardState_item (localStorage (world_of (handle full_page ClickNextBtn start_world))) = None
   \<and> currentIndex (state (world_of (handle full_page ClickPrevBtn start_world))) = 7
   \<and> flashcardState_item (localStorage (world_of (handle full_page ClickPrevBtn start_world))) = None
   \<and> currentIndex (state (world_of (handle full_page (ClickTermItem 2) start_world))) = 2
   \<and> flashcardState_item (localStorage (world_of (handle full_page (ClickTermItem 2) start_world))) = None"
  by code_simp

text \<open>
  Claim C2, amended. After every call of \<open>toggleStar\<close> the session snapshot
  \<open>{ currentIndex, starredCards }\<close> of the state it leaves is written under the key
  \<open>flashcardState\<close>; \<open>nextCard\<close>, \<open>prevCard\<close> and the go-to listener of a rendered
  row read and write no storage.
\<close>

theorem toggleStar_writes_snapshot:
  "handle pg ClickStarBtn w = Returns (toggleStar w)
   \<and> emitted w (Returns (toggleStar w)) = [SetItem ''flashcardState'']
   \<and> flashcardState_item (localStorage (toggleStar w))
       = Some (Snapshot (Some (currentIndex (state (toggleStar w))))
                        (Some (starredCards (state (toggleStar w)))))
   \<and> emitted w (nextCard pg w) = [] \<and> localStorage (world_of (nextCard pg w)) = localStorage w
   \<and> emitted w (prevCard pg w) = [] \<and> localStorage (world_of (prevCard pg w)) = localStorage w
   \<and> emitted w (run_listener pg (GoTo i) w) = []
   \<and> localStorage (world_of (run_listener pg (GoTo i) w)) = localStorage w"
  by (simp add: toggleStar_def saveState_def emit_def emitted_def Let_def)

theorem toggleStar_writes_snapshot_witness:
  "emitted start_world (Returns (toggleStar start_world)) = [SetItem ''flashcardState'']
   \<and> flashcardState_item (localStorage (toggleStar start_world))
       = Some (Snapshot (Some 0) (Some [0]))
   \<and> emitted start_world (nextCard full_page start_world) = []"
  using toggleStar_writes_snapshot [of full_page start_world 0]
  by (simp add: toggleStar_def saveState_def emit_def Let_def start_world_eq Set_has_def
      Set_add_def)

subsection \<open>Layout variants are not validated\<close>

text \<open>
  Claim C3, as stated: for every value outside the five known variants
  \<open>setDesignVariant\<close> is a no-op. The value \<open>sepia\<close> is none of the five markers; set
  by a call, or found in storage at start-up, it replaces the active marker
  \<open>option-a\<close> on \<open>body\<close>, becomes \<open>state.designVariant\<close> and is persisted.
\<close>

theorem unknown_variant_is_applied:
  "''sepia'' \<notin> set variant_markers
   \<and> body_classList start_world = [''option-a'']
   \<and> designVariant (state start_world) = ''option-a''
   \<and> body_classList (world_of (setDesignVariant full_page ''sepia'' start_world)) = [''sepia'']
   \<and> designVariant (state (world_of (setDesignVariant full_page ''sepia'' start_world))) = ''sepia''
   \<and> designVariant_item (localStorage (world_of (setDesignVariant full_page ''sepia'' start_world)))
       = Some ''sepia''
   \<and> emitted start_world (setDesignVariant full_page ''sepia'' start_world)
       = [SetItem ''designVariant'']
   \<and> body_classList
        (world_of (page_load full_page (empty_storage\<lparr>designVariant_item := Some ''sepia''\<rparr>)))
       = [''sepia'']"
  by code_simp

lemma setDesignVariant_token:
  assumes "variant \<noteq> []" "\<not> list_ex is_ascii_whitespace variant"
  shows "\<exists>w'. setDesignVariant pg variant w = Returns w'
           \<and> designVariant (state w') = variant
           \<and> designVariant_item (localStorage w') = Some variant
           \<and> effects w' = effects w @ [SetItem ''designVariant'']
           \<and> body_classList w'
              = classList_add (classList_remove (body_classList w) variant_markers) variant"
  using assms by (simp add: setDesignVariant_def Let_def emit_def)

text \<open>
  Claim C3, amended. \<open>setDesignVariant\<close> does not validate its argument: for every
  value that \<open>classList.add\<close> accepts (not empty, no ASCII white space), known or
  not, it returns with that value as the only one of the variant markers on \<open>body\<close>
  (each of the five markers other than the value is cleared), as
  \<open>state.designVariant\<close>, and written under the key \<open>designVariant\<close>.
\<close>

theorem setDesignVariant_takes_any_token:
  assumes "variant \<noteq> []" "\<not> list_ex is_ascii_whitespace variant"
  shows "\<exists>w'. setDesignVariant pg variant w = Returns w'
           \<and> designVariant (state w') = variant
           \<and> designVariant_item (localStorage w') = Some variant
           \<and> emitted w (setDesignVariant pg variant w) = [SetItem ''designVariant'']
           \<and> classList_contains (body_classList w') variant
           \<and> (\<forall>m \<in> set variant_markers. m \<noteq> variant \<longrightarrow> \<not> classList_contains (body_classList w') m)"
proof -
  from setDesignVariant_token[OF assms, of pg w] obtain w' where
    w': "setDesignVariant pg variant w = Returns w'" "designVariant (state w') = variant"
        "designVariant_item (localStorage w') = Some variant"
        "effects w' = effects w @ [SetItem ''designVariant'']"
        "body_classList w' = classList_add (classList_remove (body_classList w) variant_markers) variant"
    by blast
  have "classList_contains (body_classList w') variant"
    by (simp add: w' classList_contains_def classList_add_def)
  moreover have "\<forall>m \<in> set variant_markers. m \<noteq> variant \<longrightarrow> \<not> classList_contains (body_classList w') m"
    by (auto simp: w' classList_contains_def classList_add_def classList_remove_def)
  moreover have "emitted w (setDesignVariant pg variant w) = [SetItem ''designVariant'']"
    by (simp add: w' emitted_def)
  ultimately show ?thesis using w' by simp
qed

theorem setDesignVariant_takes_any_token_witness:
  "''sepia'' \<noteq> [] \<and> \<not> list_ex is_ascii_whitespace ''sepia''
   \<and> (\<exists>w'. setDesignVariant full_page ''sepia'' start_world = Returns w'
           \<and> designVariant (state w') = ''sepia''
           \<and> designVariant_item (localStorage w') = Some ''sepia''
           \<and> classList_contains (body_classList w') ''sepia''
           \<and> \<not> classList_contains (body_classList w') ''option-a'')"
  using setDesignVariant_takes_any_token [of "''sepia''" full_page start_world]
  by (auto simp: is_ascii_whitespace_def variant_markers_def)

subsection \<open>Imports that replace nothing\<close>

text \<open>
  Claim C4, as stated: an import whose text is empty, blank or yields no card shows a
  blocking message, aborts and changes neither the card store nor the session. The text
  \<open>OnlyOneColumn\<close> is not blank and yields no card; the import returns the world as it
  was and shows nothing.
\<close>

theorem import_without_cards_is_silent:
  "trim ''OnlyOneColumn'' \<noteq> []
   \<and> parse_cards ''OnlyOneColumn'' = []
   \<and> importFlashcards full_page None (Some ''OnlyOneColumn'') ''t'' start_world = Returns start_world
   \<and> emitted start_world (importFlashcards full_page None (Some ''OnlyOneColumn'') ''t'' start_world) = []"
  by code_simp

text \<open>
  Claim C4, amended. An import whose text is empty or blank shows the alert, returns, and
  changes neither the card store nor the session nor the storage; an import whose text is
  not blank but yields no card returns with the same unchanged store, session and
  storage, and shows no message.
\<close>

theorem import_failure_keeps_state:
  assumes "trim (textarea_value importTextarea) = []
           \<or> parse_cards (textarea_value importTextarea) = []"
  shows "returned (importFlashcards pg ttl importTextarea now w)
       \<and> flashcards (world_of (importFlashcards pg ttl importTextarea now w)) = flashcards w
       \<and> state (world_of (importFlashcards pg ttl importTextarea now w)) = state w
       \<and> localStorage (world_of (importFlashcards pg ttl importTextarea now w)) = localStorage w
       \<and> (world_of (importFlashcards pg ttl importTextarea now w))\<lparr>effects := effects w\<rparr> = w
       \<and> (if trim (textarea_value importTextarea) = []
          then emitted w (importFlashcards pg ttl importTextarea now w)
                 = [Alert ''Please enter some flashcard content'']
          else emitted w (importFlashcards pg ttl importTextarea now w) = [])"
  using assms by (auto simp: importFlashcards_def Let_def emit_def emitted_def)

theorem import_failure_keeps_state_witness:
  "(trim (textarea_value (Some ''  '')) = [] \<or> parse_cards (textarea_value (Some ''  '')) = [])
   \<and> returned (importFlashcards full_page (Some ''T'') (Some ''  '') ''t'' start_world)
   \<and> flashcards (world_of (importFlashcards full_page (Some ''T'') (Some ''  '') ''t'' start_world))
       = flashcards start_world
   \<and> state (world_of (importFlashcards full_page (Some ''T'') (Some ''  '') ''t'' start_world))
       = state start_world
   \<and> emitted start_world (importFlashcards full_page (Some ''T'') (Some ''  '') ''t'' start_world)
       = [Alert ''Please enter some flashcard content'']"
  using import_failure_keeps_state [of "Some ''  ''" full_page "Some ''T''" "''t''" start_world]
  by (simp add: trim_def is_whitespace_def textarea_value_def)

subsection \<open>What a line of import text yields\<close>

text \<open>
  Claim C5, as stated: a line yields a card only if splitting gives at least two
  non-empty parts. The script tests the number of parts only: a line that ends in a
  comma, or starts with one, yields a card with an empty definition or an empty term.
\<close>

theorem line_with_empty_part_yields_card:
  "parse_line ''a,'' = Some \<lparr>card_term = ''a'', card_definition = ''''\<rparr>
   \<and> parse_line '',b'' = Some \<lparr>card_term = '''', card_definition = ''b''\<rparr>
   \<and> parse_cards ''a,'' = [\<lparr>card_term = ''a'', card_definition = ''''\<rparr>]"
  by code_simp

lemma split_chars_first:
  "split_chars sep s =
     takeWhile (\<lambda>c. \<not> sep c) s
       # (case dropWhile (\<lambda>c. \<not> sep c) s of [] \<Rightarrow> [] | c # rest \<Rightarrow> split_chars sep rest)"
  by (induction s) (auto split: list.splits)

lemma dropWhile_not_sep:
  "list_ex sep s \<Longrightarrow> \<exists>c rest. dropWhile (\<lambda>c. \<not> sep c) s = c # rest"
  by (induction s) auto

lemma dropWhile_no_sep:
  "\<not> list_ex sep s \<Longrightarrow> dropWhile (\<lambda>c. \<not> sep c) s = []"
  by (induction s) auto

text \<open>
  Claim C5, amended. The parser splits a line at every tab and comma and trims the
  parts. A line yields a card exactly when it holds at least one tab or comma, that is,
  when there are at least two parts, empty or not. The term is the trimmed text before
  the first separator, the definition the trimmed text between the first separator and
  the second (or the end of the line); what follows the second separator is ignored. A
  line without separator yields nothing.
\<close>

theorem parse_line_first_two_parts:
  "parse_line line =
     (if list_ex is_part_separator line
      then Some \<lparr>card_term = trim (takeWhile (\<lambda>c. \<not> is_part_separator c) line),
                 card_definition =
                   trim (takeWhile (\<lambda>c. \<not> is_part_separator c)
                          (tl (dropWhile (\<lambda>c. \<not> is_part_separator c) line)))\<rparr>
      else None)"
proof (cases "list_ex is_part_separator line")
  case True
  then obtain c rest where d: "dropWhile (\<lambda>c. \<not> is_part_separator c) line = c # rest"
    using dropWhile_not_sep by blast
  have "split_chars is_part_separator line
        = takeWhile (\<lambda>c. \<not> is_part_separator c) line # split_chars is_part_separator rest"
    using split_chars_first[of is_part_separator line] d by simp
  also have "split_chars is_part_separator rest
        = takeWhile (\<lambda>c. \<not> is_part_separator c) rest
            # (case dropWhile (\<lambda>c. \<not> is_part_separator c) rest of
                 [] \<Rightarrow> [] | c # rest' \<Rightarrow> split_chars is_part_separator rest')"
    by (rule split_chars_first)
  finally show ?thesis using True d by (simp add: parse_line_def Let_def)
next
  case False
  then have "split_chars is_part_separator line = [takeWhile (\<lambda>c. \<not> is_part_separator c) line]"
    using split_chars_first[of is_part_separator line] dropWhile_no_sep[of is_part_separator line]
    by simp
  with False show ?thesis by (simp add: parse_line_def Let_def)
qed

theorem parse_line_first_two_parts_witness:
  "parse_line '' a , b , c'' = Some \<lparr>card_term = ''a'', card_definition = ''b''\<rparr>
   \<and> parse_line ''OnlyOneColumn'' = None"
  using parse_line_first_two_parts [of "'' a , b , c''"] parse_line_first_two_parts [of "''OnlyOneColumn''"]
  by (simp add: is_part_separator_def trim_def is_whitespace_def)

subsection \<open>Star buttons of panel items and table rows\<close>

lemma plain_sample_flashcards: "list_all plain_card sample_flashcards"
  by (simp add: sample_flashcards_def plain_card_def plain_text_def)

lemma plain_session_updateCard [simp]:
  "plain_session (world_of (updateCard pg w)) = plain_session w"
  by (simp add: plain_session_def stars_inert_def)

lemma plain_session_updateCard_cases:
  "updateCard pg w = Returns u \<Longrightarrow> plain_session u = plain_session w"
  "updateCard pg w = Throws e u \<Longrightarrow> plain_session u = plain_session w"
  using plain_session_updateCard[of pg w] by simp_all

lemma plain_session_state [simp]:
  "plain_session (w\<lparr>state := s\<rparr>) = plain_session w"
  "plain_session (w\<lparr>effects := e\<rparr>) = plain_session w"
  "plain_session (w\<lparr>localStorage := l\<rparr>) = plain_session w"
  "plain_session (w\<lparr>body_classList := c\<rparr>) = plain_session w"
  "plain_session (w\<lparr>listeners_attached := a\<rparr>) = plain_session w"
  by (simp_all add: plain_session_def stars_inert_def)

lemma plain_session_renderers [simp]:
  "plain_session (updateTopicsList pg cs w) = plain_session w"
  "plain_session (updateJourneyView pg w) = plain_session w"
  "plain_session w \<Longrightarrow> plain_session (updatePanelTermsList pg w)"
  "plain_session w \<Longrightarrow> plain_session (initTableView pg w)"
  by (auto simp: plain_session_def stars_inert_def updateTopicsList_def updateJourneyView_def
      updatePanelTermsList_def initTableView_def list_all_iff)

lemma plain_session_dispatch [simp]:
  "plain_session (world_of (dispatch pg ls w)) = plain_session w"
proof (induction ls arbitrary: w)
  case Nil
  then show ?case by simp
next
  case (Cons l ls)
  obtain index where l: "l = GoTo index" by (cases l)
  let ?u = "w\<lparr>state := (state w)\<lparr>currentIndex := int index\<rparr>\<rparr>"
  show ?case
  proof (cases "updateCard pg ?u")
    case (Returns v)
    from plain_session_updateCard_cases(1)[OF this] have "plain_session v = plain_session w" by simp
    with Cons.IH[of v] Returns show ?thesis by (simp add: l)
  next
    case (Throws e v)
    from plain_session_updateCard_cases(2)[OF this] have "plain_session v = plain_session w" by simp
    with Cons.IH[of v] Throws show ?thesis by (simp add: l)
  qed
qed

lemma plain_session_prev_next [simp]:
  "plain_session (world_of (prevCard pg w)) = plain_session w"
  "plain_session (world_of (nextCard pg w)) = plain_session w"
  by (simp_all add: prevCard_def nextCard_def)

lemma plain_session_simple [simp]:
  "plain_session (flipCard w) = plain_session w"
  "plain_session (toggleStar w) = plain_session w"
  "plain_session (emit e w) = plain_session w"
  "plain_session (loadSavedState w) = plain_session w"
  "plain_session (attachEventListeners w) = plain_session w"
  "plain_session (saveContent t c n w) = plain_session w"
  by (simp_all add: flipCard_def toggleStar_def saveState_def emit_def Let_def loadSavedState_def
      attachEventListeners_def saveContent_def split: option.splits flashcardState_json.splits)

lemma plain_session_handleKeydown:
  "plain_session (world_of (handleKeydown pg ev w)) = plain_session w"
  by (simp add: handleKeydown_def)

lemma plain_session_setDesignVariant:
  "plain_session w \<Longrightarrow> plain_session (world_of (setDesignVariant pg v w))"
  by (simp add: setDesignVariant_def Let_def)

lemma plain_session_importFlashcards:
  assumes "plain_session w" "list_all plain_card (parse_cards (textarea_value x))"
  shows "plain_session (world_of (importFlashcards pg t x n w))"
proof -
  let ?u = "w\<lparr>flashcards := parse_cards (textarea_value x), state := (state w)\<lparr>currentIndex := 0\<rparr>\<rparr>"
  have u: "plain_session ?u"
    using assms by (simp add: plain_session_def stars_inert_def)
  show ?thesis
  proof (cases "updateCard pg ?u")
    case (Returns v)
    from plain_session_updateCard_cases(1)[OF this] u have "plain_session v" by simp
    with assms(1) Returns show ?thesis
      by (simp add: importFlashcards_def Let_def)
  next
    case (Throws e v)
    from plain_session_updateCard_cases(2)[OF this] u have "plain_session v" by simp
    with assms(1) Throws show ?thesis
      by (simp add: importFlashcards_def Let_def)
  qed
qed

lemma plain_session_handle:
  "plain_event ev \<Longrightarrow> plain_session w \<Longrightarrow> plain_session (world_of (handle pg ev w))"
  by (cases ev)
     (simp_all add: plain_session_handleKeydown plain_session_setDesignVariant
        plain_session_importFlashcards)

lemma plain_session_user_event:
  "plain_event ev \<Longrightarrow> plain_session w \<Longrightarrow> plain_session (world_of (user_event pg ev w))"
  by (simp add: user_event_def plain_session_handle)

lemma plain_session_user_events:
  "list_all plain_event evs \<Longrightarrow> plain_session w \<Longrightarrow> plain_session (user_events pg evs w)"
  by (induction evs arbitrary: w) (simp_all add: plain_session_user_event)

lemma plain_session_initial: "plain_session (initial_world ls)"
  using plain_sample_flashcards
  by (simp add: plain_session_def stars_inert_def initial_world_def)

lemma plain_session_init:
  assumes "plain_session w"
  shows "plain_session (world_of (init pg w))"
proof -
  have a: "plain_session (world_of (loadDesignVariant pg w))"
    using assms by (simp add: loadDesignVariant_def Let_def plain_session_setDesignVariant)
  show ?thesis
  proof (cases "loadDesignVariant pg w")
    case (Returns u)
    with a have u: "plain_session u" by simp
    show ?thesis
    proof (cases "updateCard pg (loadSavedState u)")
      case (Returns v)
      from plain_session_updateCard_cases(1)[OF this] u have "plain_session v" by simp
      with \<open>loadDesignVariant pg w = Returns u\<close> Returns show ?thesis by (simp add: init_def)
    next
      case (Throws e v)
      from plain_session_updateCard_cases(2)[OF this] u have "plain_session v" by simp
      with \<open>loadDesignVariant pg w = Returns u\<close> Throws show ?thesis by (simp add: init_def)
    qed
  next
    case (Throws e u)
    with a show ?thesis by (simp add: init_def)
  qed
qed

lemma star_click_inert:
  assumes "stars_inert w"
  shows "handle pg (ClickPanelTermStar i) w = Returns w"
    and "handle pg (ClickTableTermStar i) w = Returns w"
  using assms by (simp_all add: stars_inert_def list_all_length star_click_path_def)

text \<open>
  Claim C6, as stated: in the panel, panel-alt and table variants a click on the star of
  row i calls toggleStar(i) and never changes \<open>currentIndex\<close>. Neither half holds.
  In the panel layout and in the table layout, with eight rows rendered and nothing
  starred, a click on the star of the third row leaves \<open>starredCards\<close> empty: nothing
  is toggled. And after an import of \<open><div>,x;b,y\<close> in the panel layout and a step
  forward, the star button of the first row stands inside \<open>.panel-term-content\<close>; a
  click on it moves \<open>currentIndex\<close> from 1 to 0.
\<close>

theorem row_star_click_toggles_nothing:
  "length (panel_term_items panel_session) = 8
   \<and> classList_contains (body_classList panel_session) ''option-b''
   \<and> starredCards (state panel_session) = []
   \<and> starredCards (state (world_of (user_event full_page (ClickPanelTermStar 2) panel_session))) = []
   \<and> length (table_term_rows table_session) = 8
   \<and> classList_contains (body_classList table_session) ''option-d''
   \<and> starredCards (state table_session) = []
   \<and> starredCards (state (world_of (user_event full_page (ClickTableTermStar 2) table_session))) = []
   \<and> flashcards markup_session
       = [\<lparr>card_term = ''<div>'', card_definition = ''x''\<rparr>,
          \<lparr>card_term = ''b'', card_definition = ''y''\<rparr>]
   \<and> classList_contains (body_classList markup_session) ''option-b''
   \<and> currentIndex (state markup_session) = 1
   \<and> currentIndex (state (world_of (user_event full_page (ClickPanelTermStar 0) markup_session))) = 0
   \<and> starredCards (state (world_of (user_event full_page (ClickPanelTermStar 0) markup_session))) = []"
  by code_simp

text \<open>
  Claim C6, amended. As long as no imported card text holds a \<open><\<close> (the built-in
  texts hold none), in every world that start-up and user events produce, whatever the
  layout variant, a click on the star of a panel item or of a table row never changes
  \<open>currentIndex\<close>: the click reaches no listener and returns the world as it was.
\<close>

theorem row_star_click_keeps_index:
  assumes "w = user_events pg evs (world_of (page_load pg ls))"
      and "list_all plain_event evs"
  shows "user_event pg (ClickPanelTermStar i) w = Returns w
       \<and> user_event pg (ClickTableTermStar i) w = Returns w
       \<and> currentIndex (state (world_of (user_event pg (ClickPanelTermStar i) w)))
           = currentIndex (state w)
       \<and> currentIndex (state (world_of (user_event pg (ClickTableTermStar i) w)))
           = currentIndex (state w)"
proof -
  have "plain_session (world_of (page_load pg ls))"
    unfolding page_load_def by (rule plain_session_init) (rule plain_session_initial)
  with assms(2) have "plain_session w"
    unfolding assms(1) by (rule plain_session_user_events)
  then have inert: "stars_inert w" by (simp add: plain_session_def)
  have p: "handle pg (ClickPanelTermStar i) w = Returns w"
    using inert by (rule star_click_inert(1))
  have t: "handle pg (ClickTableTermStar i) w = Returns w"
    using inert by (rule star_click_inert(2))
  show ?thesis by (simp add: user_event_def p t del: handle.simps)
qed

theorem row_star_click_keeps_index_witness:
  "list_all plain_event
     [ClickVariantBtn ''option-b'',
      ClickImportSubmitBtn None (Some ''a,1;b,2;c,3'') ''2026-01-01T00:00:00.000Z'',
      ClickNextBtn]
   \<and> list_all plain_event [ClickVariantBtn ''option-d'', ClickNextBtn]
   \<and> user_event full_page (ClickPanelTermStar 2) plain_import_session = Returns plain_import_session
   \<and> user_event full_page (ClickTableTermStar 2) table_session = Returns table_session
   \<and> length (panel_term_items plain_import_session) = 3
   \<and> currentIndex (state plain_import_session) = 1
   \<and> currentIndex (state (world_of
         (user_event full_page (ClickPanelTermContent 2) plain_import_session))) = 2"
proof -
  have e1: "list_all plain_event
     [ClickVariantBtn ''option-b'',
      ClickImportSubmitBtn None (Some ''a,1;b,2;c,3'') ''2026-01-01T00:00:00.000Z'',
      ClickNextBtn]"
    by code_simp
  have e2: "list_all plain_event [ClickVariantBtn ''option-d'', ClickNextBtn]"
    by simp
  have "user_event full_page (ClickPanelTermStar 2) plain_import_session = Returns plain_import_session"
    using row_star_click_keeps_index
      [of plain_import_session full_page
          "[ClickVariantBtn ''option-b'',
            ClickImportSubmitBtn None (Some ''a,1;b,2;c,3'') ''2026-01-01T00:00:00.000Z'',
            ClickNextBtn]" empty_storage 2] e1
    by (simp add: plain_import_session_def start_world_def del: plain_event.simps)
  moreover have "user_event full_page (ClickTableTermStar 2) table_session = Returns table_session"
    using row_star_click_keeps_index
      [of table_session full_page "[ClickVariantBtn ''option-d'', ClickNextBtn]" empty_storage 2] e2
    by (simp add: table_session_def start_world_def)
  moreover have "length (panel_term_items plain_import_session) = 3
     \<and> currentIndex (state plain_import_session) = 1
     \<and> currentIndex (state (world_of
           (user_event full_page (ClickPanelTermContent 2) plain_import_session))) = 2"
    by code_simp
  ultimately show ?thesis using e1 e2 by simp
qed

subsection \<open>Navigation is cyclic\<close>

lemma nextCard_step:
  assumes "0 \<le> currentIndex (state w)" "currentIndex (state w) < int (length (flashcards w))"
  shows "\<exists>w'. nextCard pg w = Returns w' \<and> flashcards w' = flashcards w
       \<and> currentIndex (state w') = (currentIndex (state w) + 1) mod int (length (flashcards w))"
proof (cases "currentIndex (state w) < int (length (flashcards w)) - 1")
  case True
  let ?u = "w\<lparr>state := (state w)\<lparr>currentIndex := currentIndex (state w) + 1\<rparr>\<rparr>"
  have "0 \<le> currentIndex (state ?u)" "currentIndex (state ?u) < int (length (flashcards ?u))"
    using assms True by simp_all
  from updateCard_in_range[OF this, of pg] True assms show ?thesis
    by (auto simp: nextCard_def)
next
  case False
  let ?u = "w\<lparr>state := (state w)\<lparr>currentIndex := 0\<rparr>\<rparr>"
  have ne: "flashcards w \<noteq> []" using assms by auto
  have "0 \<le> currentIndex (state ?u)" "currentIndex (state ?u) < int (length (flashcards ?u))"
    using ne by simp_all
  moreover have "currentIndex (state w) + 1 = int (length (flashcards w))"
    using False assms by simp
  ultimately show ?thesis using updateCard_in_range[of ?u pg] False
    by (auto simp: nextCard_def)
qed

lemma prevCard_step:
  assumes "0 \<le> currentIndex (state w)" "currentIndex (state w) < int (length (flashcards w))"
  shows "\<exists>w'. prevCard pg w = Returns w' \<and> flashcards w' = flashcards w
       \<and> currentIndex (state w') = (currentIndex (state w) - 1) mod int (length (flashcards w))"
proof (cases "currentIndex (state w) > 0")
  case True
  let ?u = "w\<lparr>state := (state w)\<lparr>currentIndex := currentIndex (state w) - 1\<rparr>\<rparr>"
  have "0 \<le> currentIndex (state ?u)" "currentIndex (state ?u) < int (length (flashcards ?u))"
    using assms True by simp_all
  from updateCard_in_range[OF this, of pg] True assms show ?thesis
    by (auto simp: prevCard_def)
next
  case False
  let ?u = "w\<lparr>state := (state w)\<lparr>currentIndex := int (length (flashcards w)) - 1\<rparr>\<rparr>"
  have i0: "currentIndex (state w) = 0" using False assms by simp
  have ne: "flashcards w \<noteq> []" using assms by auto
  have "0 \<le> currentIndex (state ?u)" "currentIndex (state ?u) < int (length (flashcards ?u))"
    using ne by (simp_all add: Suc_le_eq)
  moreover have "(- 1) mod int (length (flashcards w)) = int (length (flashcards w)) - 1"
    using ne by (simp add: zmod_minus1)
  ultimately show ?thesis using updateCard_in_range[of ?u pg] False i0
    by (auto simp: prevCard_def)
qed

lemma repeatedly_nextCard:
  "0 \<le> currentIndex (state w) \<Longrightarrow> currentIndex (state w) < int (length (flashcards w)) \<Longrightarrow>
   \<exists>w'. repeatedly k (nextCard pg) w = Returns w' \<and> flashcards w' = flashcards w
       \<and> currentIndex (state w') = (currentIndex (state w) + int k) mod int (length (flashcards w))"
proof (induction k arbitrary: w)
  case 0
  then show ?case by simp
next
  case (Suc k)
  from nextCard_step[OF Suc.prems, of pg] obtain u where
    u: "nextCard pg w = Returns u" "flashcards u = flashcards w"
       "currentIndex (state u) = (currentIndex (state w) + 1) mod int (length (flashcards w))"
    by blast
  have "0 < int (length (flashcards w))" using Suc.prems by linarith
  then have "0 \<le> currentIndex (state u)" "currentIndex (state u) < int (length (flashcards u))"
    unfolding u by (rule pos_mod_sign, rule pos_mod_bound)
  from Suc.IH[OF this] obtain w' where
    w': "repeatedly k (nextCard pg) u = Returns w'" "flashcards w' = flashcards u"
        "currentIndex (state w') = (currentIndex (state u) + int k) mod int (length (flashcards u))"
    by blast
  have "(currentIndex (state u) + int k) mod int (length (flashcards u))
        = (currentIndex (state w) + int (Suc k)) mod int (length (flashcards w))"
    unfolding u by (simp add: mod_simps ac_simps)
  with u w' show ?case by simp
qed

lemma repeatedly_prevCard:
  "0 \<le> currentIndex (state w) \<Longrightarrow> currentIndex (state w) < int (length (flashcards w)) \<Longrightarrow>
   \<exists>w'. repeatedly k (prevCard pg) w = Returns w' \<and> flashcards w' = flashcards w
       \<and> currentIndex (state w') = (currentIndex (state w) - int k) mod int (length (flashcards w))"
proof (induction k arbitrary: w)
  case 0
  then show ?case by simp
next
  case (Suc k)
  from prevCard_step[OF Suc.prems, of pg] obtain u where
    u: "prevCard pg w = Returns u" "flashcards u = flashcards w"
       "currentIndex (state u) = (currentIndex (state w) - 1) mod int (length (flashcards w))"
    by blast
  have "0 < int (length (flashcards w))" using Suc.prems by linarith
  then have "0 \<le> currentIndex (state u)" "currentIndex (state u) < int (length (flashcards u))"
    unfolding u by (rule pos_mod_sign, rule pos_mod_bound)
  from Suc.IH[OF this] obtain w' where
    w': "repeatedly k (prevCard pg) u = Returns w'" "flashcards w' = flashcards u"
        "currentIndex (state w') = (currentIndex (state u) - int k) mod int (length (flashcards u))"
    by blast
  have "(currentIndex (state u) - int k) mod int (length (flashcards u))
        = (currentIndex (state w) - int (Suc k)) mod int (length (flashcards w))"
    unfolding u by (simp add: mod_simps algebra_simps)
  with u w' show ?case by simp
qed

text \<open>
  Claim C7. For every non-empty card store of size n and every starting
  \<open>currentIndex\<close> in range, n calls of \<open>nextCard\<close> all return and bring
  \<open>currentIndex\<close> back to its original value, and so do n calls of \<open>prevCard\<close>.
\<close>

theorem next_prev_full_cycle:
  assumes "0 \<le> currentIndex (state w)" "currentIndex (state w) < int (length (flashcards w))"
  shows "(\<exists>w'. repeatedly (length (flashcards w)) (nextCard pg) w = Returns w'
            \<and> currentIndex (state w') = currentIndex (state w))
       \<and> (\<exists>w'. repeatedly (length (flashcards w)) (prevCard pg) w = Returns w'
            \<and> currentIndex (state w') = currentIndex (state w))"
proof
  from repeatedly_nextCard[OF assms, of "length (flashcards w)" pg] assms
  show "\<exists>w'. repeatedly (length (flashcards w)) (nextCard pg) w = Returns w'
            \<and> currentIndex (state w') = currentIndex (state w)"
    by auto
next
  from repeatedly_prevCard[OF assms, of "length (flashcards w)" pg] assms
  show "\<exists>w'. repeatedly (length (flashcards w)) (prevCard pg) w = Returns w'
            \<and> currentIndex (state w') = currentIndex (state w)"
    by auto
qed

theorem next_prev_full_cycle_witness:
  "0 \<le> currentIndex (state (start_world\<lparr>state := (state start_world)\<lparr>currentIndex := 3\<rparr>\<rparr>))
   \<and> currentIndex (state (start_world\<lparr>state := (state start_world)\<lparr>currentIndex := 3\<rparr>\<rparr>))
       < int (length (flashcards (start_world\<lparr>state := (state start_world)\<lparr>currentIndex := 3\<rparr>\<rparr>)))
   \<and> (\<exists>w'. repeatedly 8 (nextCard full_page)
               (start_world\<lparr>state := (state start_world)\<lparr>currentIndex := 3\<rparr>\<rparr>) = Returns w'
            \<and> currentIndex (state w') = 3)
   \<and> (\<exists>w'. repeatedly 8 (prevCard full_page)
               (start_world\<lparr>state := (state start_world)\<lparr>currentIndex := 3\<rparr>\<rparr>) = Returns w'
            \<and> currentIndex (state w') = 3)"
  using next_prev_full_cycle
    [of "start_world\<lparr>state := (state start_world)\<lparr>currentIndex := 3\<rparr>\<rparr>" full_page]
  by (simp add: start_world_eq length_sample_flashcards)

subsection \<open>Flipping, and navigation that turns the card back\<close>

text \<open>
  Claim C8, as stated: \<open>flipCard\<close> is an involution on \<open>isFlipped\<close> and changes
  nothing else, and every navigation via goTo, next or prev forces \<open>isFlipped\<close> to
  false. The second half fails in two ways. In \<open>stale_rows_session\<close> the listeners are
  attached, the index is in range and the card is flipped; a click on the sixth panel
  row, rendered for the earlier store, sets the index to 5 and \<open>updateCard\<close> throws
  before it reaches the reset, and a step back after it throws as well: the card stays
  flipped. And on a page without \<open>#card-front\<close>, \<open>updateCard\<close> returns at its guard:
  after a flip and a step forward the card is still flipped.
\<close>

theorem navigation_can_leave_card_flipped:
  "listeners_attached stale_rows_session
   \<and> index_in_range stale_rows_session
   \<and> length (flashcards stale_rows_session) = 1
   \<and> length (panel_term_items stale_rows_session) = 8
   \<and> isFlipped (state stale_rows_session)
   \<and> (case user_event full_page (ClickPanelTermContent 5) stale_rows_session of
         Returns w \<Rightarrow> False
       | Throws e w \<Rightarrow>
           e = TypeError \<and> currentIndex (state w) = 5 \<and> isFlipped (state w)
           \<and> (case user_event full_page ClickPrevBtn w of
                 Returns v \<Rightarrow> False
               | Throws e' v \<Rightarrow>
                   e' = TypeError \<and> currentIndex (state v) = 4 \<and> isFlipped (state v)))
   \<and> returned (page_load page_without_front empty_storage)
   \<and> currentIndex (state (user_events page_without_front [ClickFlashcard, ClickNextBtn]
         (world_of (page_load page_without_front empty_storage)))) = 1
   \<and> isFlipped (state (user_events page_without_front [ClickFlashcard, ClickNextBtn]
         (world_of (page_load page_without_front empty_storage))))"
  by code_simp

text \<open>
  Claim C8, amended. \<open>flipCard\<close> is an involution: two calls restore the world, each
  call negates \<open>isFlipped\<close> and changes nothing else. On a page that has both card
  faces, \<open>nextCard\<close> and \<open>prevCard\<close> from an index in range, and the go-to listener
  of a row whose index is below the size of the card store, return with \<open>isFlipped\<close>
  false, whatever it was. On a page that lacks a card face these navigations return with
  \<open>isFlipped\<close> as it was.
\<close>

theorem flip_involution_nav_resets:
  "flipCard (flipCard w) = w
   \<and> isFlipped (state (flipCard w)) = (\<not> isFlipped (state w))
   \<and> (flipCard w)\<lparr>state := (state (flipCard w))\<lparr>isFlipped := b\<rparr>\<rparr> = w\<lparr>state := (state w)\<lparr>isFlipped := b\<rparr>\<rparr>
   \<and> (cardFront pg \<and> cardBack pg \<and> 0 \<le> currentIndex (state w)
        \<and> currentIndex (state w) < int (length (flashcards w)) \<longrightarrow>
        (\<exists>w'. nextCard pg w = Returns w' \<and> \<not> isFlipped (state w'))
      \<and> (\<exists>w'. prevCard pg w = Returns w' \<and> \<not> isFlipped (state w')))
   \<and> (cardFront pg \<and> cardBack pg \<and> i < length (flashcards w) \<longrightarrow>
        (\<exists>w'. run_listener pg (GoTo i) w = Returns w' \<and> \<not> isFlipped (state w')
            \<and> currentIndex (state w') = int i))
   \<and> (\<not> (cardFront pg \<and> cardBack pg) \<longrightarrow>
        (\<exists>w'. nextCard pg w = Returns w' \<and> isFlipped (state w') = isFlipped (state w))
      \<and> (\<exists>w'. prevCard pg w = Returns w' \<and> isFlipped (state w') = isFlipped (state w))
      \<and> (\<exists>w'. run_listener pg (GoTo i) w = Returns w'
            \<and> isFlipped (state w') = isFlipped (state w)))"
  by (auto simp: flipCard_def nextCard_def prevCard_def updateCard_def Let_def)

theorem flip_involution_nav_resets_witness:
  "flipCard (flipCard (flipCard start_world)) = flipCard start_world
   \<and> isFlipped (state (flipCard start_world))
   \<and> (\<exists>w'. nextCard full_page (flipCard start_world) = Returns w' \<and> \<not> isFlipped (state w'))
   \<and> (\<exists>w'. prevCard full_page (flipCard start_world) = Returns w' \<and> \<not> isFlipped (state w'))
   \<and> (\<exists>w'. run_listener full_page (GoTo 5) (flipCard start_world) = Returns w'
          \<and> \<not> isFlipped (state w') \<and> currentIndex (state w') = 5)
   \<and> (\<exists>w'. nextCard page_without_front (flipCard start_world) = Returns w'
          \<and> isFlipped (state w'))"
  using flip_involution_nav_resets [of "flipCard start_world" False full_page 5]
    flip_involution_nav_resets [of "flipCard start_world" False page_without_front 5]
  by (simp add: flipCard_def full_page_def page_without_front_def start_world_eq
      length_sample_flashcards)

subsection \<open>What start-up reads and what an import writes\<close>

text \<open>
  Claim C9, as stated: every persisted snapshot (session, content, layout) is read back
  at start-up. After an import under the title \<open>Mine\<close> the content snapshot is in
  storage; the next page load reads the keys \<open>designVariant\<close> and
  \<open>flashcardState\<close> only and shows the built-in cards.
\<close>

theorem content_snapshot_is_not_read:
  "flashcards imported_session = [\<lparr>card_term = ''a'', card_definition = ''1''\<rparr>]
   \<and> flashcardContent_item (localStorage imported_session)
       = Some \<lparr>title = ''Mine'',
               saved_flashcards = [\<lparr>card_term = ''a'', card_definition = ''1''\<rparr>],
               savedAt = ''2026-01-01T00:00:00.000Z''\<rparr>
   \<and> returned (page_load full_page (localStorage imported_session))
   \<and> effects (world_of (page_load full_page (localStorage imported_session)))
       = [GetItem ''designVariant'', SetItem ''designVariant'', GetItem ''flashcardState'']
   \<and> GetItem ''flashcardContent''
       \<notin> set (effects (world_of (page_load full_page (localStorage imported_session))))
   \<and> flashcards (world_of (page_load full_page (localStorage imported_session))) = sample_flashcards"
  by code_simp

lemma importFlashcards_accepts:
  assumes "import_accepts ta"
  shows "\<exists>v. importFlashcards pg ttl ta now w = Returns v
           \<and> effects v = effects w @ [SetItem ''flashcardContent'']
           \<and> flashcards v = parse_cards (textarea_value ta)
           \<and> currentIndex (state v) = 0
           \<and> flashcardContent_item (localStorage v)
               = Some \<lparr>title = title_value ttl,
                       saved_flashcards = parse_cards (textarea_value ta),
                       savedAt = now\<rparr>"
proof -
  let ?u = "w\<lparr>flashcards := parse_cards (textarea_value ta), state := (state w)\<lparr>currentIndex := 0\<rparr>\<rparr>"
  have ne: "parse_cards (textarea_value ta) \<noteq> []" "trim (textarea_value ta) \<noteq> []"
    using assms by (auto simp: import_accepts_def)
  then have "flashcards ?u \<noteq> []" "currentIndex (state ?u) = 0" by simp_all
  from updateCard_first_card[OF this, of pg] obtain v where
    v: "updateCard pg ?u = Returns v" "effects v = effects w" "localStorage v = localStorage w"
       "flashcards v = parse_cards (textarea_value ta)" "currentIndex (state v) = 0"
    by auto
  show ?thesis
    using ne v
    by (simp add: importFlashcards_def Let_def textarea_value_def saveContent_def emit_def)
qed

lemma importFlashcards_rejects:
  assumes "\<not> import_accepts ta"
  shows "effects (world_of (importFlashcards pg ttl ta now w)) = effects w
       \<or> effects (world_of (importFlashcards pg ttl ta now w))
           = effects w @ [Alert ''Please enter some flashcard content'']"
  using assms
  by (auto simp: importFlashcards_def Let_def textarea_value_def import_accepts_def emit_def)

lemma handle_writes_content:
  "SetItem ''flashcardContent'' \<in> set (emitted w (handle pg ev w))
   \<longleftrightarrow> (\<exists>ttl ta now. ev = ClickImportSubmitBtn ttl ta now \<and> import_accepts ta)"
proof (cases ev)
  case (Keydown event)
  with effects_handleKeydown[of pg event w] show ?thesis by (auto simp: emitted_def)
next
  case (ClickVariantBtn variant)
  with effects_setDesignVariant[of pg variant w] show ?thesis by (auto simp: emitted_def)
next
  case (ClickImportSubmitBtn ttl ta now)
  show ?thesis
  proof (cases "import_accepts ta")
    case True
    from importFlashcards_accepts[OF this, of pg ttl now w] True ClickImportSubmitBtn
    show ?thesis by (auto simp: emitted_def)
  next
    case False
    from importFlashcards_rejects[OF this, of pg ttl now w] False ClickImportSubmitBtn
    show ?thesis by (auto simp: emitted_def)
  qed
qed (simp_all add: emitted_def flipCard_def toggleStar_def saveState_def emit_def Let_def)

lemma saved_variant_nonempty: "saved_variant ls \<noteq> []"
  by (simp add: saved_variant_def split: option.splits)

lemma loadDesignVariant_rejected:
  assumes "list_ex is_ascii_whitespace (saved_variant (localStorage w))"
  shows "\<exists>u. loadDesignVariant pg w = Throws InvalidCharacterError u
           \<and> effects u = effects w @ [GetItem ''designVariant'']"
  using assms saved_variant_nonempty[of "localStorage w"]
  by (simp add: loadDesignVariant_def saved_variant_def setDesignVariant_def Let_def emit_def)

lemma loadDesignVariant_accepted:
  assumes "\<not> list_ex is_ascii_whitespace (saved_variant (localStorage w))"
  shows "\<exists>u. loadDesignVariant pg w = Returns u
           \<and> effects u = effects w @ [GetItem ''designVariant'', SetItem ''designVariant'']
           \<and> designVariant (state u) = saved_variant (localStorage w)
           \<and> flashcardState_item (localStorage u) = flashcardState_item (localStorage w)
           \<and> flashcards u = flashcards w"
  using assms saved_variant_nonempty[of "localStorage w"]
  by (simp add: loadDesignVariant_def saved_variant_def setDesignVariant_def Let_def emit_def)

lemma loadSavedState_facts:
  "effects (loadSavedState u)
     = effects u @ GetItem ''flashcardState''
         # (if flashcardState_item (localStorage u) = Some Malformed then [ConsoleError] else [])"
  "designVariant (state (loadSavedState u)) = designVariant (state u)"
  "flashcards (loadSavedState u) = flashcards u"
  "flashcardState_item (localStorage u) = Some (Snapshot (Some i) (Some s)) \<Longrightarrow>
     currentIndex (state (loadSavedState u)) = i \<and> starredCards (state (loadSavedState u)) = new_Set s"
  by (simp_all add: loadSavedState_def Let_def emit_def
      split: option.splits flashcardState_json.splits)

lemma init_after_variant:
  assumes "loadDesignVariant pg w = Returns u"
  shows "effects (world_of (init pg w)) = effects (loadSavedState u)
       \<and> currentIndex (state (world_of (init pg w))) = currentIndex (state (loadSavedState u))
       \<and> starredCards (state (world_of (init pg w))) = starredCards (state (loadSavedState u))
       \<and> designVariant (state (world_of (init pg w))) = designVariant (state (loadSavedState u))
       \<and> flashcards (world_of (init pg w)) = flashcards (loadSavedState u)"
proof (cases "updateCard pg (loadSavedState u)")
  case (Returns v)
  have "effects v = effects (loadSavedState u)"
       "currentIndex (state v) = currentIndex (state (loadSavedState u))"
       "starredCards (state v) = starredCards (state (loadSavedState u))"
       "designVariant (state v) = designVariant (state (loadSavedState u))"
       "flashcards v = flashcards (loadSavedState u)"
    using rows_updateCard(3,4)[of pg "loadSavedState u"] state_updateCard[of pg "loadSavedState u"]
    by (simp_all add: Returns)
  then show ?thesis using assms Returns
    by (simp add: init_def attachEventListeners_def)
next
  case (Throws e v)
  have "effects v = effects (loadSavedState u)"
       "currentIndex (state v) = currentIndex (state (loadSavedState u))"
       "starredCards (state v) = starredCards (state (loadSavedState u))"
       "designVariant (state v) = designVariant (state (loadSavedState u))"
       "flashcards v = flashcards (loadSavedState u)"
    using rows_updateCard(3,4)[of pg "loadSavedState u"] state_updateCard[of pg "loadSavedState u"]
    by (simp_all add: Throws)
  then show ?thesis using assms Throws
    by (simp add: init_def)
qed

lemma page_load_reads_variant:
  "\<exists>xs. effects (world_of (page_load pg ls)) = GetItem ''designVariant'' # xs
        \<and> SetItem ''flashcardContent'' \<notin> set xs \<and> GetItem ''flashcardContent'' \<notin> set xs"
proof (cases "list_ex is_ascii_whitespace (saved_variant ls)")
  case True
  then have "list_ex is_ascii_whitespace (saved_variant (localStorage (initial_world ls)))"
    by (simp add: initial_world_def)
  from loadDesignVariant_rejected[OF this, of pg] obtain u where
    "loadDesignVariant pg (initial_world ls) = Throws InvalidCharacterError u"
    "effects u = effects (initial_world ls) @ [GetItem ''designVariant'']"
    by blast
  then show ?thesis by (simp add: page_load_def init_def initial_world_def)
next
  case False
  then have "\<not> list_ex is_ascii_whitespace (saved_variant (localStorage (initial_world ls)))"
    by (simp add: initial_world_def)
  from loadDesignVariant_accepted[OF this, of pg] obtain u where
    u: "loadDesignVariant pg (initial_world ls) = Returns u"
       "effects u = effects (initial_world ls) @ [GetItem ''designVariant'', SetItem ''designVariant'']"
    by blast
  from init_after_variant[OF u(1)] u(2) show ?thesis
    by (simp add: page_load_def loadSavedState_facts(1) initial_world_def)
qed

lemma page_load_hydrates:
  assumes "\<not> list_ex is_ascii_whitespace (saved_variant ls)"
  shows "GetItem ''flashcardState'' \<in> set (effects (world_of (page_load pg ls)))
       \<and> designVariant (state (world_of (page_load pg ls))) = saved_variant ls
       \<and> (\<forall>i s. flashcardState_item ls = Some (Snapshot (Some i) (Some s)) \<longrightarrow>
             currentIndex (state (world_of (page_load pg ls))) = i
             \<and> starredCards (state (world_of (page_load pg ls))) = new_Set s)"
proof -
  have "\<not> list_ex is_ascii_whitespace (saved_variant (localStorage (initial_world ls)))"
    using assms by (simp add: initial_world_def)
  from loadDesignVariant_accepted[OF this, of pg] obtain u where
    u: "loadDesignVariant pg (initial_world ls) = Returns u"
       "designVariant (state u) = saved_variant (localStorage (initial_world ls))"
       "flashcardState_item (localStorage u) = flashcardState_item (localStorage (initial_world ls))"
    by blast
  have ls: "localStorage (initial_world ls) = ls" by (simp add: initial_world_def)
  from init_after_variant[OF u(1)] u(2,3) show ?thesis
    unfolding page_load_def ls
    by (auto simp: loadSavedState_facts)
qed

text \<open>
  Claim C9, amended. Start-up reads the layout snapshot and, once the stored variant has
  been applied (\<open>classList.add\<close> rejects one with white space), the session
  snapshot: the stored variant, index and stars become the state. Start-up neither
  reads nor writes the content snapshot. A user event writes the content snapshot exactly when it is an import
  that is accepted, and the snapshot then holds the title, the parsed cards and the time.
\<close>

theorem snapshots_read_content_written:
  "GetItem ''designVariant'' \<in> set (effects (world_of (page_load pg ls)))
   \<and> (\<not> list_ex is_ascii_whitespace (saved_variant ls) \<longrightarrow>
        GetItem ''flashcardState'' \<in> set (effects (world_of (page_load pg ls)))
        \<and> designVariant (state (world_of (page_load pg ls))) = saved_variant ls
        \<and> (\<forall>i s. flashcardState_item ls = Some (Snapshot (Some i) (Some s)) \<longrightarrow>
              currentIndex (state (world_of (page_load pg ls))) = i
              \<and> starredCards (state (world_of (page_load pg ls))) = new_Set s))
   \<and> GetItem ''flashcardContent'' \<notin> set (effects (world_of (page_load pg ls)))
   \<and> SetItem ''flashcardContent'' \<notin> set (effects (world_of (page_load pg ls)))
   \<and> (SetItem ''flashcardContent'' \<in> set (emitted w (handle pg ev w))
        \<longleftrightarrow> (\<exists>ttl ta now. ev = ClickImportSubmitBtn ttl ta now \<and> import_accepts ta))
   \<and> (import_accepts ta \<longrightarrow>
        flashcardContent_item
          (localStorage (world_of (handle pg (ClickImportSubmitBtn ttl ta now) w)))
        = Some \<lparr>title = title_value ttl,
                saved_flashcards = parse_cards (textarea_value ta),
                savedAt = now\<rparr>)"
proof -
  from page_load_reads_variant[of pg ls] obtain xs where
    xs: "effects (world_of (page_load pg ls)) = GetItem ''designVariant'' # xs"
        "SetItem ''flashcardContent'' \<notin> set xs" "GetItem ''flashcardContent'' \<notin> set xs"
    by blast
  have a: "GetItem ''designVariant'' \<in> set (effects (world_of (page_load pg ls)))"
    and c: "SetItem ''flashcardContent'' \<notin> set (effects (world_of (page_load pg ls)))"
    and g: "GetItem ''flashcardContent'' \<notin> set (effects (world_of (page_load pg ls)))"
    using xs by simp_all
  have e: "import_accepts ta \<longrightarrow>
        flashcardContent_item
          (localStorage (world_of (handle pg (ClickImportSubmitBtn ttl ta now) w)))
        = Some \<lparr>title = title_value ttl,
                saved_flashcards = parse_cards (textarea_value ta),
                savedAt = now\<rparr>"
    using importFlashcards_accepts[of ta pg ttl now w] by auto
  show ?thesis
    using a c g e page_load_hydrates[of ls pg] handle_writes_content[of w pg ev]
    by blast
qed

theorem snapshots_read_content_written_witness:
  "\<not> list_ex is_ascii_whitespace (saved_variant saved_storage)
   \<and> GetItem ''designVariant'' \<in> set (effects (world_of (page_load full_page saved_storage)))
   \<and> GetItem ''flashcardState'' \<in> set (effects (world_of (page_load full_page saved_storage)))
   \<and> designVariant (state (world_of (page_load full_page saved_storage))) = ''option-c''
   \<and> currentIndex (state (world_of (page_load full_page saved_storage))) = 3
   \<and> starredCards (state (world_of (page_load full_page saved_storage))) = [1, 3]
   \<and> import_accepts (Some ''a,1'')
   \<and> SetItem ''flashcardContent''
        \<in> set (emitted start_world
                 (handle full_page (ClickImportSubmitBtn None (Some ''a,1'') ''t'') start_world))
   \<and> flashcardContent_item
        (localStorage (world_of
           (handle full_page (ClickImportSubmitBtn None (Some ''a,1'') ''t'') start_world)))
      = Some \<lparr>title = ''Untitled Set'',
              saved_flashcards = [\<lparr>card_term = ''a'', card_definition = ''1''\<rparr>],
              savedAt = ''t''\<rparr>"
proof -
  have v: "\<not> list_ex is_ascii_whitespace (saved_variant saved_storage)"
    by (simp add: saved_variant_def saved_storage_def is_ascii_whitespace_def)
  have s: "flashcardState_item saved_storage = Some (Snapshot (Some 3) (Some [1, 3]))"
    by (simp add: saved_storage_def)
  have n: "new_Set [1, 3] = [1, 3]"
    by (simp add: new_Set_def Set_add_def Set_has_def)
  have sv: "saved_variant saved_storage = ''option-c''"
    by (simp add: saved_variant_def saved_storage_def)
  have i: "import_accepts (Some ''a,1'')" by code_simp
  have p: "parse_cards (textarea_value (Some ''a,1'')) = [\<lparr>card_term = ''a'', card_definition = ''1''\<rparr>]"
    by code_simp
  show ?thesis
    using snapshots_read_content_written
      [of full_page saved_storage start_world "ClickImportSubmitBtn None (Some ''a,1'') ''t''"
          "Some ''a,1''" None "''t''"]
      v s n sv i p
    by (auto simp: title_value_def)
qed

subsection \<open>The operations that keep the index in range\<close>

text \<open>From a state in range the following operations keep
  \<open>0 \<le> currentIndex < |CardStore|\<close>: stepping, flipping, starring, switching the
  layout, importing, and going to a row whose index is below the size of the card store.
  A row rendered for an earlier, longer store is not covered: it stays in the document
  after an import in another layout, and its listener sets the index it was built
  with.\<close>

lemma index_in_range_import:
  assumes "index_in_range w"
  shows "index_in_range (world_of (importFlashcards pg ttl ta now w))"
proof (cases "import_accepts ta")
  case True
  from importFlashcards_accepts[OF this, of pg ttl now w] True show ?thesis
    by (auto simp: index_in_range_def import_accepts_def)
next
  case False
  with assms show ?thesis
    by (auto simp: importFlashcards_def Let_def import_accepts_def emit_def index_in_range_def)
qed

lemma index_in_range_kept:
  assumes "index_in_range w"
  shows "index_in_range (world_of (nextCard pg w))"
    and "index_in_range (world_of (prevCard pg w))"
    and "index_in_range (flipCard w)"
    and "index_in_range (toggleStar w)"
    and "index_in_range (world_of (setDesignVariant pg variant w))"
    and "i < length (flashcards w) \<Longrightarrow> index_in_range (world_of (run_listener pg (GoTo i) w))"
  using assms
  by (auto simp: index_in_range_def nextCard_def prevCard_def flipCard_def toggleStar_def
      saveState_def emit_def setDesignVariant_def Let_def)

subsection \<open>Keyboard events from form fields\<close>

text \<open>
  Claim C10. For every keyboard event whose target is an INPUT or a TEXTAREA element,
  \<open>handleKeydown\<close> returns with the world unchanged: the arrow keys do not navigate
  and Space and Enter do not flip.
\<close>

theorem handleKeydown_form_field:
  "target_tagName event = ''INPUT'' \<or> target_tagName event = ''TEXTAREA'' \<Longrightarrow>
     handleKeydown pg event w = Returns w \<and> handle pg (Keydown event) w = Returns w"
  by (simp add: handleKeydown_def)

theorem handleKeydown_form_field_witness:
  "handleKeydown full_page \<lparr>target_tagName = ''TEXTAREA'', key = ''ArrowRight''\<rparr> start_world
     = Returns start_world
   \<and> currentIndex (state (world_of
         (handleKeydown full_page \<lparr>target_tagName = ''BODY'', key = ''ArrowRight''\<rparr> start_world))) = 1"
  using handleKeydown_form_field
    [of "\<lparr>target_tagName = ''TEXTAREA'', key = ''ArrowRight''\<rparr>" full_page start_world]
  by (simp add: handleKeydown_def nextCard_def updateCard_def full_page_def start_world_eq
      sample_flashcards_def)

end
